theory Spec2Isabelle
  imports Main "HOL-Library.AList"
begin

section \<open>The engine of the toolkit platform (tank/platform/engine.py)\<close>

text \<open>
  A shallow embedding of the class \<open>Engine\<close> and of the module-level engine management
  functions. Python dictionaries are association lists (a key occurs once; assignment to
  a new key appends, as \<open>AList.update\<close> does), so that the loops over \<open>values()\<close> and
  \<open>iteritems()\<close> have an order to follow: insertion order stands for the order of the
  Python 2 dictionary. App objects and command entries are shared by reference between
  the active maps and the persistent pools, so both live in a store and the maps hold
  addresses. Exceptions are values of \<open>error\<close>; what a call into code outside this file
  does (validation, framework setup, the code of an app, the hooks) is a field of the
  records below.
\<close>

subsection \<open>Data\<close>

type_synonym tk_context = string
type_synonym settings = "(string \<times> string) list"
type_synonym app_ref = nat
type_synonym cmd_ref = nat

text \<open>
  \<open>TankError\<close> and its two subclasses come from the errors modules; \<open>PyException\<close> is any
  other \<open>Exception\<close>.
\<close>

datatype error =
    TankError
  | TankEngineInitError
  | TankContextChangeNotSupportedError
  | PyException

definition is_TankError :: "error \<Rightarrow> bool" where
  "is_TankError err = (err \<noteq> PyException)"

datatype outcome = Returns | Raises error

datatype level = LDebug | LInfo | LWarning | LError | LException

type_synonym log_entry = "level \<times> string \<times> string list"

record descriptor =
  d_system_name :: string
  d_path :: string
  d_exists_local :: bool
  d_is_dev :: bool
  d_description :: string
  d_icon_256 :: string
  d_supported_engines :: "string list"

record callback =
  cb_name :: string
  cb_params :: "string list"

record properties =
  p_prefix :: "string option"
  p_app :: "app_ref option"
  p_description :: "string option"
  p_icon :: "string option"
  p_legacy_multi_select :: bool
  p_other :: "(string \<times> string) list"

definition no_properties :: properties where
  "no_properties = \<lparr>p_prefix = None, p_app = None, p_description = None, p_icon = None,
     p_legacy_multi_select = False, p_other = []\<rparr>"

text \<open>
  A command entry: the dictionary with the keys \<open>callback\<close> and \<open>properties\<close>. The stored
  callback is \<open>callback_wrapper\<close>, a closure over the payload callback and the name the
  command was finally stored under (it logs a metric under that name, then calls the
  payload).
\<close>

record command =
  c_callback :: callback
  c_wrapper_name :: string
  c_properties :: properties

text \<open>
  The code of an app, as far as the engine calls into it. \<open>ac_init_commands\<close> are the
  calls of \<open>register_command\<close> that \<open>init_app\<close> makes, in order, before it returns or
  raises as \<open>ac_init_app\<close> says.
\<close>

record app_class =
  ac_construct :: outcome
  ac_context_change_allowed :: bool
  ac_init_commands :: "(string \<times> callback \<times> properties option) list"
  ac_init_app :: outcome
  ac_pre_context_change :: "tk_context \<Rightarrow> tk_context \<Rightarrow> outcome"
  ac_post_context_change :: "tk_context \<Rightarrow> tk_context \<Rightarrow> outcome"
  ac_post_engine_init :: outcome
  ac_destroy_frameworks :: outcome
  ac_destroy_app :: outcome

record app_obj =
  instance_name :: string
  app_descriptor :: descriptor
  app_code :: app_class
  app_context :: tk_context
  app_settings :: settings

record environment =
  env_name :: string
  env_disk_location :: string
  get_engines :: "string list"
  get_engine_descriptor :: "string \<Rightarrow> descriptor"
  get_engine_settings :: "string \<Rightarrow> settings"
  get_apps :: "string \<Rightarrow> string list"
  get_app_descriptor :: "string \<Rightarrow> string \<Rightarrow> descriptor"
  get_app_settings :: "string \<Rightarrow> string \<Rightarrow> settings"

text \<open>The code of an engine subclass, as far as the base class calls into it.\<close>

record engine_class =
  ec_init_engine :: outcome
  ec_pre_app_init :: outcome
  ec_post_app_init :: outcome
  ec_has_018_logging_support :: bool
  ec_metrics_dispatch_allowed :: bool
  ec_frameworks :: "(bool \<times> outcome) list"
  ec_shared_frameworks :: "outcome list"
  ec_context_change_allowed :: bool
  ec_pre_context_change :: "tk_context \<Rightarrow> tk_context \<Rightarrow> outcome"
  ec_post_context_change :: "tk_context \<Rightarrow> tk_context \<Rightarrow> outcome"
  ec_destroy_engine :: outcome

text \<open>
  The toolkit instance and the modules the engine imports: the core hooks, the
  pipeline configuration, \<open>validation\<close>, \<open>setup_frameworks\<close> and
  \<open>application.get_application\<close> (which finds the code of an app at its install path).
\<close>

record toolkit =
  pick_environment_hook :: "tk_context \<Rightarrow> error + string option"
  get_environment :: "string \<Rightarrow> tk_context \<Rightarrow> environment"
  pre_context_change_hook :: "tk_context option \<Rightarrow> tk_context \<Rightarrow> outcome"
  post_context_change_hook :: "tk_context option \<Rightarrow> tk_context \<Rightarrow> outcome"
  validate_context :: "descriptor \<Rightarrow> tk_context \<Rightarrow> outcome"
  validate_platform :: "descriptor \<Rightarrow> outcome"
  validate_settings :: "string \<Rightarrow> tk_context \<Rightarrow> descriptor \<Rightarrow> settings \<Rightarrow> outcome"
  setup_frameworks :: "environment \<Rightarrow> descriptor \<Rightarrow> outcome"
  get_application :: "string \<Rightarrow> app_class"
  load_plugin :: "string \<Rightarrow> error + engine_class"
  engine_init_hook :: outcome
  restart :: callback

record engine =
  tank :: toolkit
  env :: environment
  engine_instance_name :: string
  name :: string
  descriptor :: descriptor
  current_context :: tk_context
  engine_code :: engine_class
  frameworks :: "(bool \<times> outcome) list"
  shared_frameworks :: "outcome list"
  applications :: "(string \<times> app_ref) list"
  application_pool :: "(string \<times> (string \<times> app_ref) list) list"
  commands :: "(string \<times> cmd_ref) list"
  command_pool :: "(string \<times> cmd_ref) list"
  commands_that_need_prefixing :: "string list"
  currently_initializing_app :: "app_ref option"
  app_heap :: "app_ref \<Rightarrow> app_obj"
  next_app :: app_ref
  cmd_heap :: "cmd_ref \<Rightarrow> command"
  next_cmd :: cmd_ref
  invokers :: bool
  metrics_dispatching :: bool
  log_handler :: bool
  logged :: "log_entry list"

subsection \<open>Logging\<close>

definition emit :: "level \<Rightarrow> string \<Rightarrow> string list \<Rightarrow> engine \<Rightarrow> engine" where
  "emit lv msg args e = e\<lparr>logged := logged e @ [(lv, msg, args)]\<rparr>"

abbreviation log_debug :: "string \<Rightarrow> string list \<Rightarrow> engine \<Rightarrow> engine" where
  "log_debug \<equiv> emit LDebug"

abbreviation log_warning :: "string \<Rightarrow> string list \<Rightarrow> engine \<Rightarrow> engine" where
  "log_warning \<equiv> emit LWarning"

abbreviation log_error :: "string \<Rightarrow> string list \<Rightarrow> engine \<Rightarrow> engine" where
  "log_error \<equiv> emit LError"

abbreviation log_exception :: "string \<Rightarrow> string list \<Rightarrow> engine \<Rightarrow> engine" where
  "log_exception \<equiv> emit LException"

subsection \<open>register_command\<close>

text \<open>
  The duplicate check of \<open>register_command\<close>: an entry already stored under \<open>name\<close> whose
  properties name an app is moved to \<open>"<instance name>:<name>"\<close>, its \<open>prefix\<close> property
  is set (in the shared entry), and \<open>name\<close> is appended to the list of names that need
  prefixing.
\<close>

definition prefix_existing :: "string \<Rightarrow> engine \<Rightarrow> engine" where
  "prefix_existing nm e =
     (case map_of (commands e) nm of
        None \<Rightarrow> e
      | Some existing_item \<Rightarrow>
          (case p_app (c_properties (cmd_heap e existing_item)) of
             None \<Rightarrow> e
           | Some a \<Rightarrow>
               (let prefix = instance_name (app_heap e a);
                    new_name_for_existing = prefix @ '':'' @ nm;
                    item = cmd_heap e existing_item
                in e\<lparr>commands :=
                        AList.delete nm (AList.update new_name_for_existing existing_item (commands e)),
                      cmd_heap := (cmd_heap e)(existing_item :=
                        item\<lparr>c_properties := (c_properties item)\<lparr>p_prefix := Some prefix\<rparr>\<rparr>),
                      commands_that_need_prefixing := commands_that_need_prefixing e @ [nm]\<rparr>)))"

definition initial_properties :: "properties option \<Rightarrow> engine \<Rightarrow> properties" where
  "initial_properties properties e =
     (let p0 = (case properties of None \<Rightarrow> no_properties | Some p \<Rightarrow> p);
          p1 = p0\<lparr>p_prefix := None\<rparr>
      in case currently_initializing_app e of
           None \<Rightarrow> p1
         | Some a \<Rightarrow>
             (let p2 = p1\<lparr>p_app := Some a\<rparr>;
                  p3 = (if p_description p2 = None
                        then p2\<lparr>p_description := Some (d_description (app_descriptor (app_heap e a)))\<rparr>
                        else p2)
              in if p_icon p3 = None
                 then p3\<lparr>p_icon := Some (d_icon_256 (app_descriptor (app_heap e a)))\<rparr>
                 else p3))"

definition register_command :: "string \<Rightarrow> callback \<Rightarrow> properties option \<Rightarrow> engine \<Rightarrow> engine" where
  "register_command nm cb properties e =
     (let p = initial_properties properties e;
          e1 = prefix_existing nm e;
          (nm', p') =
            (if nm \<in> set (commands_that_need_prefixing e1)
             then (case p_app p of
                     Some a \<Rightarrow>
                       (let prefix = instance_name (app_heap e1 a)
                        in (prefix @ '':'' @ nm, p\<lparr>p_prefix := Some prefix\<rparr>))
                   | None \<Rightarrow> (nm, p))
             else (nm, p));
          p'' = (if ''entity_type'' \<in> set (cb_params cb) \<and> ''entity_ids'' \<in> set (cb_params cb)
                 then p'\<lparr>p_legacy_multi_select := True\<rparr> else p');
          r = next_cmd e1
      in e1\<lparr>commands := AList.update nm' r (commands e1),
            cmd_heap := (cmd_heap e1)(r := \<lparr>c_callback = cb, c_wrapper_name = nm', c_properties = p''\<rparr>),
            next_cmd := Suc r\<rparr>)"

subsection \<open>get_matching_commands\<close>







subsection \<open>Loading the apps\<close>

text \<open>The name of the Shotgun engine, from the constants module.\<close>

definition SHOTGUN_ENGINE_NAME :: string where
  "SHOTGUN_ENGINE_NAME = ''tk-shotgun''"

definition app_obj_code :: "engine \<Rightarrow> app_ref \<Rightarrow> app_class" where
  "app_obj_code e app = app_code (app_heap e app)"

definition register_reload_command :: "engine \<Rightarrow> engine" where
  "register_reload_command e =
     (case find (\<lambda>app. d_is_dev (app_descriptor (app_heap e app))) (map snd (applications e)) of
        None \<Rightarrow> e
      | Some app \<Rightarrow>
          register_command ''Reload and Restart'' (restart (tank e))
            (Some (no_properties\<lparr>p_other := [(''short_name'', ''restart''), (''type'', ''context_menu'')]\<rparr>))
            (log_debug ''App is registered via a dev descriptor.'' [instance_name (app_heap e app)] e))"

text \<open>The body of the first \<open>try\<close> of the loop: the validation of one declared app.\<close>

definition validate_app :: "string \<Rightarrow> descriptor \<Rightarrow> engine \<Rightarrow> outcome" where
  "validate_app app_instance_name d e =
     (case (if engine_instance_name e \<noteq> SHOTGUN_ENGINE_NAME
            then validate_context (tank e) d (current_context e) else Returns) of
        Raises err \<Rightarrow> Raises err
      | Returns \<Rightarrow>
          (case validate_platform (tank e) d of
             Raises err \<Rightarrow> Raises err
           | Returns \<Rightarrow>
               if d_supported_engines d \<noteq> [] \<and> name e \<notin> set (d_supported_engines d)
               then Raises TankError
               else validate_settings (tank e) app_instance_name (current_context e) d
                      (get_app_settings (env e) (engine_instance_name e) app_instance_name)))"

text \<open>
  The loop that puts the commands of a reused app back: every entry of the command pool
  whose properties name this very app object.
\<close>

definition repopulate_commands :: "app_ref \<Rightarrow> engine \<Rightarrow> engine" where
  "repopulate_commands app e =
     e\<lparr>commands :=
         foldl (\<lambda>cmds (command_name, command).
                  if p_app (c_properties (cmd_heap e command)) = Some app
                  then AList.update command_name command cmds else cmds)
           (commands e) (command_pool e)\<rparr>"

text \<open>
  The body of the \<open>try\<close> that updates a pooled app in place. What was done before an
  exception stays done.
\<close>

definition reinitialize_app ::
  "app_ref \<Rightarrow> string \<Rightarrow> descriptor \<Rightarrow> settings \<Rightarrow> tk_context \<Rightarrow> engine \<Rightarrow> outcome \<times> engine" where
  "reinitialize_app app app_instance_name d app_settings' old_context e =
     (let e1 = e\<lparr>app_heap := (app_heap e)(app := (app_heap e app)
                   \<lparr>instance_name := app_instance_name,
                    app_context := current_context e,
                    app_settings := app_settings'\<rparr>)\<rparr>
      in case setup_frameworks (tank e1) (env e1) d of
           Raises err \<Rightarrow> (Raises err, e1)
         | Returns \<Rightarrow>
             (let e2 = repopulate_commands app e1
              in (ac_post_context_change (app_obj_code e2 app) old_context (current_context e2), e2)))"

definition reuse_app ::
  "bool \<Rightarrow> tk_context option \<Rightarrow> string \<Rightarrow> descriptor \<Rightarrow> settings \<Rightarrow> engine \<Rightarrow> bool \<times> engine" where
  "reuse_app reuse_existing_apps old_context app_instance_name d app_settings' e =
     (case (if reuse_existing_apps then map_of (application_pool e) (d_path d) else None) of
        None \<Rightarrow> (False, e)
      | Some app_instances \<Rightarrow>
          (case old_context of
             None \<Rightarrow> (False, e)
           | Some old \<Rightarrow>
               (case map_of app_instances app_instance_name of
                  None \<Rightarrow> (False, e)
                | Some app \<Rightarrow>
                    (case reinitialize_app app app_instance_name d app_settings' old e of
                       (Raises err, e1) \<Rightarrow>
                         (False, log_warning ''App failed to change context and will be restarted''
                                   [app_instance_name] e1)
                     | (Returns, e1) \<Rightarrow>
                         (True, (log_debug ''App successfully reinitialized for new context''
                                   [app_instance_name, current_context e1] e1)
                                \<lparr>applications := AList.update app_instance_name app (applications e1)\<rparr>)))))"

definition init_app :: "app_ref \<Rightarrow> engine \<Rightarrow> engine" where
  "init_app app e =
     foldl (\<lambda>e' (nm, cb, props). register_command nm cb props e') e
       (ac_init_commands (app_obj_code e app))"

text \<open>
  The body of the \<open>try\<close> that loads an app: construction, frameworks, \<open>init_app\<close> with
  the app recorded as the one currently initializing (reset in the \<open>finally\<close>).
\<close>

definition start_app ::
  "string \<Rightarrow> descriptor \<Rightarrow> settings \<Rightarrow> engine \<Rightarrow> (error + app_ref) \<times> engine" where
  "start_app app_instance_name d app_settings' e =
     (let cls = get_application (tank e) (d_path d)
      in case ac_construct cls of
           Raises err \<Rightarrow> (Inl err, e)
         | Returns \<Rightarrow>
             (let app = next_app e;
                  e1 = e\<lparr>app_heap := (app_heap e)(app :=
                           \<lparr>instance_name = app_instance_name, app_descriptor = d, app_code = cls,
                            app_context = current_context e, app_settings = app_settings'\<rparr>),
                         next_app := Suc app\<rparr>
              in case setup_frameworks (tank e1) (env e1) d of
                   Raises err \<Rightarrow> (Inl err, e1)
                 | Returns \<Rightarrow>
                     (let e2 = (init_app app (e1\<lparr>currently_initializing_app := Some app\<rparr>))
                                 \<lparr>currently_initializing_app := None\<rparr>
                      in case ac_init_app cls of
                           Raises err \<Rightarrow> (Inl err, e2)
                         | Returns \<Rightarrow> (Inr app, e2))))"

definition pool_put ::
  "string \<Rightarrow> string \<Rightarrow> app_ref \<Rightarrow> (string \<times> (string \<times> app_ref) list) list \<Rightarrow>
   (string \<times> (string \<times> app_ref) list) list" where
  "pool_put app_path key app pool =
     AList.update app_path
       (AList.update key app (case map_of pool app_path of None \<Rightarrow> [] | Some m \<Rightarrow> m)) pool"

text \<open>
  The update of the persistent application pool at the end of the loop body: every app of
  the active map that allows context changes is stored under its descriptor path and the
  instance name of the app the loop is at.
\<close>

definition update_application_pool :: "string \<Rightarrow> engine \<Rightarrow> engine" where
  "update_application_pool app_instance_name e =
     e\<lparr>application_pool :=
         foldl (\<lambda>pool app.
                  if ac_context_change_allowed (app_obj_code e app)
                  then pool_put (d_path (app_descriptor (app_heap e app))) app_instance_name app pool
                  else pool)
           (application_pool e) (map snd (applications e))\<rparr>"

definition update_command_pool :: "engine \<Rightarrow> engine" where
  "update_command_pool e =
     e\<lparr>command_pool :=
         foldl (\<lambda>pool (command_name, command). AList.update command_name command pool)
           (command_pool e) (commands e)\<rparr>"

definition log_failure :: "error \<Rightarrow> string \<Rightarrow> string list \<Rightarrow> engine \<Rightarrow> engine" where
  "log_failure err msg args e =
     (if is_TankError err then log_error msg args e else log_exception msg args e)"

definition load_new_app :: "string \<Rightarrow> descriptor \<Rightarrow> settings \<Rightarrow> engine \<Rightarrow> engine" where
  "load_new_app app_instance_name d app_settings' e =
     (let e2 = (case start_app app_instance_name d app_settings' e of
                  (Inl err, e1) \<Rightarrow>
                    log_failure err ''App failed to initialize. It will not be loaded.'' [d_path d] e1
                | (Inr app, e1) \<Rightarrow>
                    e1\<lparr>applications := AList.update app_instance_name app (applications e1)\<rparr>)
      in update_command_pool (update_application_pool app_instance_name e2))"

text \<open>The body of the loop over the declared apps.\<close>

definition load_app :: "bool \<Rightarrow> tk_context option \<Rightarrow> engine \<Rightarrow> string \<Rightarrow> engine" where
  "load_app reuse_existing_apps old_context e app_instance_name =
     (let d = get_app_descriptor (env e) (engine_instance_name e) app_instance_name
      in if \<not> d_exists_local d
         then log_error ''Cannot start app! It does not exist on disk.'' [d_path d] e
         else
           (case validate_app app_instance_name d e of
              Raises err \<Rightarrow>
                log_failure err ''App configuration error. The app will not be loaded.''
                  [app_instance_name] e
            | Returns \<Rightarrow>
                (let app_settings' = get_app_settings (env e) (engine_instance_name e) app_instance_name
                 in case reuse_app reuse_existing_apps old_context app_instance_name d app_settings' e of
                      (True, e1) \<Rightarrow> e1
                    | (False, e1) \<Rightarrow> load_new_app app_instance_name d app_settings' e1)))"

definition load_apps :: "bool \<Rightarrow> tk_context option \<Rightarrow> engine \<Rightarrow> engine" where
  "load_apps reuse_existing_apps old_context e =
     foldl (load_app reuse_existing_apps old_context)
       (register_reload_command (e\<lparr>applications := [], commands := []\<rparr>))
       (get_apps (env e) (engine_instance_name e))"

definition run_post_engine_inits :: "engine \<Rightarrow> engine" where
  "run_post_engine_inits e =
     foldl (\<lambda>e' app.
              case ac_post_engine_init (app_obj_code e' app) of
                Returns \<Rightarrow> e'
              | Raises err \<Rightarrow>
                  log_failure err ''App failed to run its post_engine_init.''
                    [instance_name (app_heap e' app)] e')
       e (map snd (applications e))"

subsection \<open>Changing the context\<close>

definition pick_environment :: "string \<Rightarrow> toolkit \<Rightarrow> tk_context \<Rightarrow> error + string" where
  "pick_environment engine_name tk ctx =
     (case pick_environment_hook tk ctx of
        Inl err \<Rightarrow> Inl TankEngineInitError
      | Inr None \<Rightarrow> Inl TankEngineInitError
      | Inr (Some env_name') \<Rightarrow> Inr env_name')"

definition get_env_and_descriptor_for_engine ::
  "string \<Rightarrow> toolkit \<Rightarrow> tk_context \<Rightarrow> error + environment \<times> descriptor" where
  "get_env_and_descriptor_for_engine engine_name tk ctx =
     (case pick_environment engine_name tk ctx of
        Inl err \<Rightarrow> Inl err
      | Inr env_name' \<Rightarrow>
          (let env' = get_environment tk env_name' ctx
           in if engine_name \<notin> set (get_engines env')
              then Inl TankEngineInitError
              else Inr (env', get_engine_descriptor env' engine_name)))"

text \<open>The apps of the persistent pool, in the order the two nested loops visit them.\<close>

definition pooled_apps :: "engine \<Rightarrow> app_ref list" where
  "pooled_apps e = concat (map (\<lambda>(install_path, app_instances). map snd app_instances) (application_pool e))"

fun apps_pre_context_change :: "tk_context \<Rightarrow> app_ref list \<Rightarrow> engine \<Rightarrow> outcome \<times> engine" where
  "apps_pre_context_change new_context [] e = (Returns, e)"
| "apps_pre_context_change new_context (app # apps) e =
     (let e1 = log_debug ''Executing pre_context_change for app'' [instance_name (app_heap e app)] e
      in case ac_pre_context_change (app_obj_code e1 app) (current_context e1) new_context of
           Raises err \<Rightarrow> (Raises err, e1)
         | Returns \<Rightarrow>
             apps_pre_context_change new_context apps
               (log_debug ''Execution of pre_context_change for app is complete.''
                  [instance_name (app_heap e1 app)] e1))"

definition finish_context_change :: "tk_context \<Rightarrow> tk_context \<Rightarrow> engine \<Rightarrow> (error + unit) \<times> engine" where
  "finish_context_change old_context new_context e =
     (let e1 = log_debug ''Executing post_context_change for engine'' [] e
      in case ec_post_context_change (engine_code e1) old_context new_context of
           Raises err \<Rightarrow> (Inl err, e1)
         | Returns \<Rightarrow>
             (case post_context_change_hook (tank e1) (Some old_context) new_context of
                Raises err \<Rightarrow> (Inl err, e1)
              | Returns \<Rightarrow>
                  (Inr (), run_post_engine_inits
                     (log_debug ''Execution of post_context_change for engine is complete.'' [] e1))))"

definition perform_context_change ::
  "environment \<Rightarrow> tk_context \<Rightarrow> engine \<Rightarrow> (error + unit) \<times> engine" where
  "perform_context_change new_env new_context e =
     (let e1 = log_debug ''Executing pre_context_change for engine'' [] e
      in case pre_context_change_hook (tank e1) (Some (current_context e1)) new_context of
           Raises err \<Rightarrow> (Inl err, e1)
         | Returns \<Rightarrow>
             (case ec_pre_context_change (engine_code e1) (current_context e1) new_context of
                Raises err \<Rightarrow> (Inl err, e1)
              | Returns \<Rightarrow>
                  (let e2 = log_debug ''Execution of pre_context_change for engine is complete.'' [] e1
                   in case apps_pre_context_change new_context (pooled_apps e2) e2 of
                        (Raises err, e3) \<Rightarrow> (Inl err, e3)
                      | (Returns, e3) \<Rightarrow>
                          (let old_context = current_context e3
                           in finish_context_change old_context new_context
                                (load_apps True (Some old_context)
                                   (e3\<lparr>env := new_env, current_context := new_context\<rparr>))))))"

definition change_context :: "tk_context \<Rightarrow> engine \<Rightarrow> (error + unit) \<times> engine" where
  "change_context new_context e =
     (if \<not> ec_context_change_allowed (engine_code e)
      then (Inl TankContextChangeNotSupportedError,
            log_debug ''Engine does not allow context changes.'' [] e)
      else
        (case get_env_and_descriptor_for_engine (engine_instance_name e) (tank e) new_context of
           Inl err \<Rightarrow> (Inl err, e)
         | Inr (new_env, engine_descriptor) \<Rightarrow>
             if engine_descriptor \<noteq> descriptor e
             then (Inl TankContextChangeNotSupportedError,
                   log_debug ''Engine does not match descriptors between contexts.''
                     [current_context e, new_context] e)
             else perform_context_change new_env new_context e))"

subsection \<open>The current engine, destroy and start\<close>

text \<open>
  The module-level state: the global \<open>g_current_engine\<close>, the hooks cache of the hook
  module, the base file handler of the log manager and what the core logger received.
\<close>

record world =
  g_current_engine :: "engine option"
  hooks_cache :: "string list"
  base_file_handler :: "string option"
  core_logged :: "log_entry list"

definition set_current_engine :: "engine option \<Rightarrow> world \<Rightarrow> world" where
  "set_current_engine eng w = w\<lparr>g_current_engine := eng\<rparr>"

definition current_engine :: "world \<Rightarrow> engine option" where
  "current_engine w = g_current_engine w"

text \<open>A sequence of calls that each return or raise: the first exception ends it.\<close>

fun first_raise :: "outcome list \<Rightarrow> outcome" where
  "first_raise [] = Returns"
| "first_raise (Returns # os) = first_raise os"
| "first_raise (Raises err # os) = Raises err"






subsection \<open>The constructor of the engine and the start of an engine\<close>

definition unallocated_app :: app_obj where
  "unallocated_app =
     \<lparr>instance_name = [],
      app_descriptor = \<lparr>d_system_name = [], d_path = [], d_exists_local = False, d_is_dev = False,
        d_description = [], d_icon_256 = [], d_supported_engines = []\<rparr>,
      app_code = \<lparr>ac_construct = Returns, ac_context_change_allowed = False, ac_init_commands = [],
        ac_init_app = Returns, ac_pre_context_change = (\<lambda>_ _. Returns),
        ac_post_context_change = (\<lambda>_ _. Returns), ac_post_engine_init = Returns,
        ac_destroy_frameworks = Returns, ac_destroy_app = Returns\<rparr>,
      app_context = [], app_settings = []\<rparr>"

definition unallocated_command :: command where
  "unallocated_command =
     \<lparr>c_callback = \<lparr>cb_name = [], cb_params = []\<rparr>, c_wrapper_name = [], c_properties = no_properties\<rparr>"

text \<open>The fields as the first lines of the constructor set them.\<close>

definition new_engine :: "toolkit \<Rightarrow> tk_context \<Rightarrow> string \<Rightarrow> environment \<Rightarrow> engine_class \<Rightarrow> engine" where
  "new_engine tk ctx engine_instance_name' env' cls =
     \<lparr>tank = tk, env = env', engine_instance_name = engine_instance_name',
      name = d_system_name (get_engine_descriptor env' engine_instance_name'),
      descriptor = get_engine_descriptor env' engine_instance_name',
      current_context = ctx, engine_code = cls,
      frameworks = [], shared_frameworks = [],
      applications = [], application_pool = [], commands = [], command_pool = [],
      commands_that_need_prefixing = [], currently_initializing_app = None,
      app_heap = (\<lambda>_. unallocated_app), next_app = 0,
      cmd_heap = (\<lambda>_. unallocated_command), next_cmd = 0,
      invokers = False, metrics_dispatching = False, log_handler = True, logged = []\<rparr>"

definition register_engine_commands :: "engine \<Rightarrow> engine" where
  "register_engine_commands e =
     (let e1 = (if ec_has_018_logging_support (engine_code e)
                then register_command ''Toggle Debug Logging''
                       \<lparr>cb_name = ''__toggle_debug_logging'', cb_params = [''self'']\<rparr>
                       (Some (no_properties
                          \<lparr>p_description := Some ''Toggles toolkit debug logging on and off.'',
                           p_other := [(''short_name'', ''toggle_debug''), (''type'', ''context_menu'')]\<rparr>))
                       e
                else e);
          e2 = register_command ''Open Log Folder''
                 \<lparr>cb_name = ''__open_log_folder'', cb_params = [''self'']\<rparr>
                 (Some (no_properties
                    \<lparr>p_description := Some ''Opens the folder where log files are being stored.'',
                     p_other := [(''short_name'', ''open_log_folder''), (''type'', ''context_menu'')]\<rparr>))
                 e1
      in register_reload_command e2)"

definition engine_init ::
  "toolkit \<Rightarrow> tk_context \<Rightarrow> string \<Rightarrow> environment \<Rightarrow> engine_class \<Rightarrow> error + engine" where
  "engine_init tk ctx engine_instance_name' env' cls =
     (let e0 = new_engine tk ctx engine_instance_name' env' cls;
          d = descriptor e0
      in case first_raise
                [validate_context tk d ctx, validate_platform tk d,
                 validate_settings tk engine_instance_name' ctx d
                   (get_engine_settings env' engine_instance_name'),
                 setup_frameworks tk env' d, ec_init_engine cls, ec_pre_app_init cls] of
           Raises err \<Rightarrow> Inl err
         | Returns \<Rightarrow>
             (let e1 = e0\<lparr>frameworks := ec_frameworks cls,
                         shared_frameworks := ec_shared_frameworks cls, invokers := True\<rparr>;
                  e2 = run_post_engine_inits (load_apps False None e1);
                  e3 = register_engine_commands e2
              in case first_raise [ec_post_app_init cls, engine_init_hook tk] of
                   Raises err \<Rightarrow> Inl err
                 | Returns \<Rightarrow>
                     Inr ((log_debug ''Init complete'' [engine_instance_name'] e3)
                            \<lparr>metrics_dispatching := ec_metrics_dispatch_allowed cls\<rparr>)))"

definition ENGINE_FILE :: string where
  "ENGINE_FILE = ''engine.py''"

text \<open>
  The body of the \<open>try\<close> of \<open>_start_engine\<close>. The check that the descriptor exists
  locally is read as a statement of that body, and the plugin is loaded with the
  imported \<open>load_plugin\<close>.
\<close>

definition start_engine_body ::
  "string \<Rightarrow> toolkit \<Rightarrow> tk_context option \<Rightarrow> tk_context \<Rightarrow> world \<Rightarrow> (error + engine) \<times> world" where
  "start_engine_body engine_name tk old_context new_context w =
     (if current_engine w \<noteq> None then (Inl TankError, w)
      else
        (let w1 = (if base_file_handler w = None then w\<lparr>base_file_handler := Some engine_name\<rparr> else w)
         in case get_env_and_descriptor_for_engine engine_name tk new_context of
              Inl err \<Rightarrow> (Inl err, w1)
            | Inr (env', engine_descriptor) \<Rightarrow>
                if \<not> d_exists_local engine_descriptor then (Inl TankEngineInitError, w1)
                else
                  (case load_plugin tk (d_path engine_descriptor @ ''/'' @ ENGINE_FILE) of
                     Inl err \<Rightarrow> (Inl err, w1)
                   | Inr class_obj \<Rightarrow>
                       (case pre_context_change_hook tk old_context new_context of
                          Raises err \<Rightarrow> (Inl err, w1)
                        | Returns \<Rightarrow>
                            (case engine_init tk new_context engine_name env' class_obj of
                               Inl err \<Rightarrow> (Inl err, w1)
                             | Inr eng \<Rightarrow>
                                 (let w2 = set_current_engine (Some eng) w1
                                  in case post_context_change_hook tk old_context new_context of
                                       Raises err \<Rightarrow> (Inl err, w2)
                                     | Returns \<Rightarrow> (Inr eng, w2)))))))"

text \<open>
  \<open>_start_engine\<close>: the bare \<open>except\<close> logs the exception with the core logger and
  raises it again unchanged.
\<close>

definition start_engine_internal ::
  "string \<Rightarrow> toolkit \<Rightarrow> tk_context option \<Rightarrow> tk_context \<Rightarrow> world \<Rightarrow> (error + engine) \<times> world" where
  "start_engine_internal engine_name tk old_context new_context w =
     (case start_engine_body engine_name tk old_context new_context w of
        (Inl err, w') \<Rightarrow>
          (Inl err, w'\<lparr>core_logged := core_logged w' @
                         [(LException, ''Exception raised in start_engine.'', [])]\<rparr>)
      | (Inr eng, w') \<Rightarrow> (Inr eng, w'))"

definition start_engine :: "string \<Rightarrow> toolkit \<Rightarrow> tk_context \<Rightarrow> world \<Rightarrow> (error + engine) \<times> world" where
  "start_engine engine_name tk ctx w = start_engine_internal engine_name tk None ctx w"

section \<open>Sample configurations\<close>

text \<open>
  Concrete descriptors, app classes, environments and a toolkit, on which the theorems
  below are instantiated. The context doubles as the name of the environment that the
  pick-environment hook selects.
\<close>

definition sample_descriptor :: "string \<Rightarrow> descriptor" where
  "sample_descriptor p =
     \<lparr>d_system_name = p, d_path = p, d_exists_local = True, d_is_dev = False,
      d_description = ''sample'', d_icon_256 = ''icon_256.png'', d_supported_engines = []\<rparr>"

definition sample_callback :: "string \<Rightarrow> callback" where
  "sample_callback nm = \<lparr>cb_name = nm, cb_params = []\<rparr>"

definition sample_app_class :: "bool \<Rightarrow> string list \<Rightarrow> outcome \<Rightarrow> app_class" where
  "sample_app_class allowed names init =
     \<lparr>ac_construct = Returns, ac_context_change_allowed = allowed,
      ac_init_commands = map (\<lambda>nm. (nm, sample_callback nm, None)) names,
      ac_init_app = init,
      ac_pre_context_change = (\<lambda>_ _. Returns),
      ac_post_context_change = (\<lambda>_ _. Returns),
      ac_post_engine_init = Returns,
      ac_destroy_frameworks = Returns, ac_destroy_app = Returns\<rparr>"

definition sample_engine_class :: engine_class where
  "sample_engine_class =
     \<lparr>ec_init_engine = Returns, ec_pre_app_init = Returns, ec_post_app_init = Returns,
      ec_has_018_logging_support = False, ec_metrics_dispatch_allowed = False,
      ec_frameworks = [], ec_shared_frameworks = [],
      ec_context_change_allowed = True,
      ec_pre_context_change = (\<lambda>_ _. Returns),
      ec_post_context_change = (\<lambda>_ _. Returns),
      ec_destroy_engine = Returns\<rparr>"

definition sample_environment :: "string \<Rightarrow> string \<Rightarrow> (string \<times> string) list \<Rightarrow> environment" where
  "sample_environment nm engine_path apps =
     \<lparr>env_name = nm, env_disk_location = ''/config/env'',
      get_engines = [''tk-sample''],
      get_engine_descriptor = (\<lambda>_. sample_descriptor engine_path),
      get_engine_settings = (\<lambda>_. []),
      get_apps = (\<lambda>_. map fst apps),
      get_app_descriptor =
        (\<lambda>_ inst. sample_descriptor (case map_of apps inst of None \<Rightarrow> [] | Some p \<Rightarrow> p)),
      get_app_settings = (\<lambda>_ _. [])\<rparr>"

definition sample_toolkit :: "(string \<Rightarrow> environment) \<Rightarrow> (string \<Rightarrow> app_class) \<Rightarrow> toolkit" where
  "sample_toolkit envs classes =
     \<lparr>pick_environment_hook = (\<lambda>ctx. Inr (Some ctx)),
      get_environment = (\<lambda>nm _. envs nm),
      pre_context_change_hook = (\<lambda>_ _. Returns),
      post_context_change_hook = (\<lambda>_ _. Returns),
      validate_context = (\<lambda>_ _. Returns),
      validate_platform = (\<lambda>_. Returns),
      validate_settings = (\<lambda>_ _ _ _. Returns),
      setup_frameworks = (\<lambda>_ _. Returns),
      get_application = classes,
      load_plugin = (\<lambda>_. Inr sample_engine_class),
      engine_init_hook = Returns,
      restart = sample_callback ''restart''\<rparr>"

text \<open>Two apps that allow context changes, installed at different paths.\<close>

definition two_apps_env :: environment where
  "two_apps_env = sample_environment ''shot'' ''/engines/tk-sample'' [(''A'', ''/apps/a''), (''B'', ''/apps/b'')]"

definition two_apps_toolkit :: toolkit where
  "two_apps_toolkit =
     sample_toolkit (\<lambda>_. two_apps_env)
       (\<lambda>_. sample_app_class True [] Returns)"

definition two_apps_engine :: engine where
  "two_apps_engine =
     load_apps False None (new_engine two_apps_toolkit ''shot'' ''tk-sample'' two_apps_env sample_engine_class)"


text \<open>
  A toolkit whose context "asset" is configured with another engine descriptor than the
  context "shot", and an engine running in "shot".
\<close>

definition shot_env :: environment where
  "shot_env = sample_environment ''shot'' ''/engines/tk-sample'' []"

definition asset_env :: environment where
  "asset_env = sample_environment ''asset'' ''/engines/tk-other'' []"

definition moved_toolkit :: toolkit where
  "moved_toolkit =
     sample_toolkit (\<lambda>nm. if nm = ''asset'' then asset_env else shot_env)
       (\<lambda>_. sample_app_class True [] Returns)"

definition shot_engine :: engine where
  "shot_engine = new_engine moved_toolkit ''shot'' ''tk-sample'' shot_env sample_engine_class"

text \<open>A world in which \<open>shot_engine\<close> is the current engine.\<close>

definition running_world :: world where
  "running_world =
     \<lparr>g_current_engine = Some shot_engine, hooks_cache = [''pick_environment''],
      base_file_handler = Some ''tk-sample'', core_logged = []\<rparr>"



text \<open>
  An app at /apps/a whose \<open>init_app\<close> registers "Foo" and then raises, and an app at
  /apps/b that starts; an environment that declares both, and one that declares only
  the first.
\<close>

definition failing_first_env :: environment where
  "failing_first_env =
     sample_environment ''shot'' ''/engines/tk-sample'' [(''A'', ''/apps/a''), (''B'', ''/apps/b'')]"

definition failing_only_env :: environment where
  "failing_only_env = sample_environment ''shot'' ''/engines/tk-sample'' [(''A'', ''/apps/a'')]"

definition failing_first_toolkit :: toolkit where
  "failing_first_toolkit =
     sample_toolkit (\<lambda>_. failing_first_env)
       (\<lambda>p. if p = ''/apps/a'' then sample_app_class False [''Foo''] (Raises PyException)
            else sample_app_class False [] Returns)"

definition failing_first_engine :: engine where
  "failing_first_engine =
     new_engine failing_first_toolkit ''shot'' ''tk-sample'' failing_first_env sample_engine_class"

definition failing_only_engine :: engine where
  "failing_only_engine =
     new_engine failing_first_toolkit ''shot'' ''tk-sample'' failing_only_env sample_engine_class"






text \<open>
  Two environments for one engine: "one" declares the app A, "two" declares A and a
  further app C. Both apps allow context changes and register a command "Foo". The
  engine has loaded its apps in "one".
\<close>

definition collide_env_one :: environment where
  "collide_env_one = sample_environment ''one'' ''/engines/tk-sample'' [(''A'', ''/apps/a'')]"

definition collide_env_two :: environment where
  "collide_env_two =
     sample_environment ''two'' ''/engines/tk-sample'' [(''A'', ''/apps/a''), (''C'', ''/apps/c'')]"

definition collide_toolkit :: toolkit where
  "collide_toolkit =
     sample_toolkit (\<lambda>nm. if nm = ''two'' then collide_env_two else collide_env_one)
       (\<lambda>_. sample_app_class True [''Foo''] Returns)"

definition collide_start :: engine where
  "collide_start =
     new_engine collide_toolkit ''one'' ''tk-sample'' collide_env_one sample_engine_class"

text \<open>
  The state of that engine after the load: the object of A at address 0, active and
  pooled, and its command "Foo" at address 0, active and pooled.
\<close>

definition collide_engine :: engine where
  "collide_engine =
     collide_start
       \<lparr>applications := [(''A'', 0)],
        application_pool := [(''/apps/a'', [(''A'', 0)])],
        commands := [(''Foo'', 0)],
        command_pool := [(''Foo'', 0)],
        app_heap := (app_heap collide_start)(0 :=
          \<lparr>instance_name = ''A'', app_descriptor = sample_descriptor ''/apps/a'',
           app_code = sample_app_class True [''Foo''] Returns,
           app_context = ''one'', app_settings = []\<rparr>),
        next_app := 1,
        cmd_heap := (cmd_heap collide_start)(0 :=
          \<lparr>c_callback = sample_callback ''Foo'', c_wrapper_name = ''Foo'',
           c_properties = no_properties
             \<lparr>p_app := Some 0, p_description := Some ''sample'', p_icon := Some ''icon_256.png''\<rparr>\<rparr>),
        next_cmd := 1\<rparr>"


section \<open>Definitions used to state the theorems\<close>



text \<open>
  Two engine states with the same configuration: toolkit, environment, names, context,
  descriptor and engine code. Loading the apps changes none of these.
\<close>

definition same_config :: "engine \<Rightarrow> engine \<Rightarrow> bool" where
  "same_config e e' \<longleftrightarrow>
     tank e' = tank e \<and> env e' = env e \<and> engine_instance_name e' = engine_instance_name e \<and>
     name e' = name e \<and> current_context e' = current_context e \<and>
     descriptor e' = descriptor e \<and> engine_code e' = engine_code e"



text \<open>
  What the environment declares for the engine, and the state of the loop of
  \<open>__load_apps\<close> after the declared apps \<open>pre\<close> have been gone through.
\<close>

definition declared_apps :: "engine \<Rightarrow> string list" where
  "declared_apps e = get_apps (env e) (engine_instance_name e)"

definition declared_descriptor :: "engine \<Rightarrow> string \<Rightarrow> descriptor" where
  "declared_descriptor e n = get_app_descriptor (env e) (engine_instance_name e) n"

definition declared_settings :: "engine \<Rightarrow> string \<Rightarrow> settings" where
  "declared_settings e n = get_app_settings (env e) (engine_instance_name e) n"

definition loop_state :: "bool \<Rightarrow> tk_context option \<Rightarrow> engine \<Rightarrow> string list \<Rightarrow> engine" where
  "loop_state reuse_existing_apps old_context e pre =
     foldl (load_app reuse_existing_apps old_context)
       (register_reload_command (e\<lparr>applications := [], commands := []\<rparr>)) pre"

text \<open>
  The declared app passes the checks before the load (it exists on disk and validates),
  and the three calls of the \<open>try\<close> that loads it (constructor, framework setup,
  \<open>init_app\<close>) all return.
\<close>

definition app_validates :: "engine \<Rightarrow> string \<Rightarrow> bool" where
  "app_validates e n \<longleftrightarrow>
     d_exists_local (declared_descriptor e n) \<and>
     validate_app n (declared_descriptor e n) e = Returns"

definition app_starts :: "engine \<Rightarrow> string \<Rightarrow> bool" where
  "app_starts e n \<longleftrightarrow>
     ac_construct (get_application (tank e) (d_path (declared_descriptor e n))) = Returns \<and>
     setup_frameworks (tank e) (env e) (declared_descriptor e n) = Returns \<and>
     ac_init_app (get_application (tank e) (d_path (declared_descriptor e n))) = Returns"

section \<open>Unfolding the model on concrete configurations\<close>

lemmas load_defs = load_apps_def load_app_def load_new_app_def start_app_def init_app_def
  reuse_app_def reinitialize_app_def repopulate_commands_def update_application_pool_def
  update_command_pool_def pool_put_def validate_app_def register_reload_command_def
  register_command_def prefix_existing_def initial_properties_def log_failure_def emit_def
  app_obj_code_def new_engine_def SHOTGUN_ENGINE_NAME_def no_properties_def
  is_TankError_def

lemmas sample_defs = sample_descriptor_def sample_callback_def sample_app_class_def
  sample_engine_class_def sample_environment_def sample_toolkit_def

subsection \<open>Facts about register_command\<close>

lemma prefix_existing_frame:
  "app_heap (prefix_existing nm e) = app_heap e"
  "next_cmd (prefix_existing nm e) = next_cmd e"
  "next_app (prefix_existing nm e) = next_app e"
  "applications (prefix_existing nm e) = applications e"
  "application_pool (prefix_existing nm e) = application_pool e"
  "command_pool (prefix_existing nm e) = command_pool e"
  "currently_initializing_app (prefix_existing nm e) = currently_initializing_app e"
  "logged (prefix_existing nm e) = logged e"
  "tank (prefix_existing nm e) = tank e"
  "env (prefix_existing nm e) = env e"
  "engine_instance_name (prefix_existing nm e) = engine_instance_name e"
  "name (prefix_existing nm e) = name e"
  "descriptor (prefix_existing nm e) = descriptor e"
  "current_context (prefix_existing nm e) = current_context e"
  "engine_code (prefix_existing nm e) = engine_code e"
  by (simp_all add: prefix_existing_def Let_def split: option.splits)

lemma register_command_frame:
  "app_heap (register_command nm cb p e) = app_heap e"
  "next_cmd (register_command nm cb p e) = Suc (next_cmd e)"
  "next_app (register_command nm cb p e) = next_app e"
  "applications (register_command nm cb p e) = applications e"
  "application_pool (register_command nm cb p e) = application_pool e"
  "command_pool (register_command nm cb p e) = command_pool e"
  "currently_initializing_app (register_command nm cb p e) = currently_initializing_app e"
  "logged (register_command nm cb p e) = logged e"
  "tank (register_command nm cb p e) = tank e"
  "env (register_command nm cb p e) = env e"
  "engine_instance_name (register_command nm cb p e) = engine_instance_name e"
  "name (register_command nm cb p e) = name e"
  "descriptor (register_command nm cb p e) = descriptor e"
  "current_context (register_command nm cb p e) = current_context e"
  "engine_code (register_command nm cb p e) = engine_code e"
  "commands_that_need_prefixing (register_command nm cb p e) = commands_that_need_prefixing (prefix_existing nm e)"
  by (simp_all add: register_command_def prefix_existing_frame Let_def split: prod.splits)







section \<open>Command registration\<close>



section \<open>Context change to another engine descriptor\<close>

text \<open>
  Claim C3. When the new context resolves to an engine descriptor that differs from the
  descriptor of the running engine, \<open>change_context\<close> raises
  \<open>TankContextChangeNotSupportedError\<close>, and the environment, the context, the active
  application map and the command registry of the engine are what they were before the
  call. (Whether the engine allows context changes does not matter: the first check
  raises the same error.)
\<close>

theorem change_context_other_descriptor:
  assumes "get_env_and_descriptor_for_engine (engine_instance_name e) (tank e) new_context
             = Inr (new_env, engine_descriptor)"
    and "engine_descriptor \<noteq> descriptor e"
  shows "fst (change_context new_context e) = Inl TankContextChangeNotSupportedError \<and>
         env (snd (change_context new_context e)) = env e \<and>
         current_context (snd (change_context new_context e)) = current_context e \<and>
         applications (snd (change_context new_context e)) = applications e \<and>
         commands (snd (change_context new_context e)) = commands e"
  using assms by (simp add: change_context_def emit_def)

theorem change_context_other_descriptor_witness:
  "get_env_and_descriptor_for_engine (engine_instance_name shot_engine) (tank shot_engine) ''asset''
     = Inr (asset_env, sample_descriptor ''/engines/tk-other'') \<and>
   sample_descriptor ''/engines/tk-other'' \<noteq> descriptor shot_engine \<and>
   fst (change_context ''asset'' shot_engine) = Inl TankContextChangeNotSupportedError \<and>
   env (snd (change_context ''asset'' shot_engine)) = env shot_engine \<and>
   current_context (snd (change_context ''asset'' shot_engine)) = current_context shot_engine \<and>
   applications (snd (change_context ''asset'' shot_engine)) = applications shot_engine \<and>
   commands (snd (change_context ''asset'' shot_engine)) = commands shot_engine"
proof -
  have h1: "get_env_and_descriptor_for_engine (engine_instance_name shot_engine) (tank shot_engine) ''asset''
     = Inr (asset_env, sample_descriptor ''/engines/tk-other'')"
    by (simp add: get_env_and_descriptor_for_engine_def pick_environment_def shot_engine_def
        new_engine_def moved_toolkit_def sample_toolkit_def asset_env_def sample_environment_def)
  have h2: "sample_descriptor ''/engines/tk-other'' \<noteq> descriptor shot_engine"
    by (simp add: shot_engine_def new_engine_def shot_env_def sample_environment_def
        sample_descriptor_def)
  from change_context_other_descriptor[OF h1 h2] h1 h2 show ?thesis by blast
qed

section \<open>Teardown\<close>








section \<open>Starting an engine while one is running\<close>

text \<open>
  Claim C6, as the code has it. When an engine is already the current engine,
  \<open>_start_engine\<close> raises \<open>TankError\<close>, the error class of the core, and not
  \<open>TankEngineInitError\<close>; the current engine stays in the global slot, and of the
  module-level state only the log of the core logger has grown, by the one record the
  bare \<open>except\<close> writes.
\<close>

theorem start_engine_while_running:
  assumes "current_engine w = Some running"
  shows "fst (start_engine_internal engine_name tk old_context new_context w) = Inl TankError \<and>
         current_engine (snd (start_engine_internal engine_name tk old_context new_context w))
           = Some running \<and>
         snd (start_engine_internal engine_name tk old_context new_context w)
           = w\<lparr>core_logged := core_logged w @ [(LException, ''Exception raised in start_engine.'', [])]\<rparr>"
  using assms
  by (simp add: start_engine_internal_def start_engine_body_def current_engine_def)

theorem start_engine_while_running_witness:
  "current_engine running_world = Some shot_engine \<and>
   fst (start_engine_internal ''tk-sample'' moved_toolkit None ''shot'' running_world) = Inl TankError \<and>
   current_engine (snd (start_engine_internal ''tk-sample'' moved_toolkit None ''shot'' running_world))
     = Some shot_engine \<and>
   snd (start_engine_internal ''tk-sample'' moved_toolkit None ''shot'' running_world)
     = running_world\<lparr>core_logged := core_logged running_world @
         [(LException, ''Exception raised in start_engine.'', [])]\<rparr>"
proof -
  have h: "current_engine running_world = Some shot_engine"
    by (simp add: current_engine_def running_world_def)
  from start_engine_while_running[OF h] h show ?thesis by blast
qed

text \<open>
  Claim C6 as stated asks for \<open>TankEngineInitError\<close>; with \<open>shot_engine\<close> running, the
  error is another one.
\<close>

theorem start_engine_while_running_counterexample:
  "fst (start_engine_internal ''tk-sample'' moved_toolkit None ''shot'' running_world)
     \<noteq> Inl TankEngineInitError"
  by (simp add: start_engine_internal_def start_engine_body_def current_engine_def
      running_world_def)

section \<open>Matching commands\<close>




section \<open>Loading the apps: what stays the same\<close>

lemma same_config_refl: "same_config e e"
  by (simp add: same_config_def)

lemma same_config_trans: "same_config a b \<Longrightarrow> same_config b c \<Longrightarrow> same_config a c"
  by (simp add: same_config_def)

lemma same_config_emit: "same_config e (emit lv msg args e)"
  by (simp add: same_config_def emit_def)

lemma same_config_register: "same_config e (register_command nm cb p e)"
  by (simp add: same_config_def register_command_frame)

lemma same_config_register_reload: "same_config e (register_reload_command e)"
  by (simp add: register_reload_command_def same_config_def register_command_frame emit_def
      split: option.splits)

lemma init_app_fold_config:
  "same_config e (foldl (\<lambda>e' (nm, cb, props). register_command nm cb props e') e cs)"
proof (induction cs arbitrary: e)
  case Nil
  show ?case by (simp add: same_config_refl)
next
  case (Cons c cs)
  obtain nm cb p where c: "c = (nm, cb, p)" by (cases c)
  show ?case
    using same_config_trans[OF same_config_register Cons.IH, of e nm cb p]
    by (simp add: c)
qed

lemma same_config_init_app: "same_config e (init_app app e)"
  by (simp add: init_app_def init_app_fold_config)

lemmas init_app_config = same_config_init_app[unfolded same_config_def]

lemma same_config_start_app: "same_config e (snd (start_app n d s e))"
  by (simp add: start_app_def Let_def same_config_def init_app_config split: outcome.splits)

lemmas start_app_config = same_config_start_app[unfolded same_config_def]

lemma same_config_reinitialize: "same_config e (snd (reinitialize_app app n d s old e))"
  by (simp add: reinitialize_app_def repopulate_commands_def Let_def same_config_def
      split: outcome.splits)

lemmas reinitialize_config = same_config_reinitialize[unfolded same_config_def]

lemma reinitialize_config_eq:
  "reinitialize_app app n d s old e = (out, e') \<Longrightarrow> same_config e e'"
  using same_config_reinitialize[of e app n d s old] by simp

lemma same_config_reuse_eq:
  "reuse_app reuse old n d s e = (b, e') \<Longrightarrow> same_config e e'"
  by (auto simp: reuse_app_def same_config_def emit_def
      split: option.splits prod.splits outcome.splits if_splits
      dest!: reinitialize_config_eq)

lemma start_app_config_eq:
  "start_app n d s e = (res, e') \<Longrightarrow> same_config e e'"
  using same_config_start_app[of e n d s] by simp

lemma same_config_update_pools:
  "same_config e (update_command_pool (update_application_pool n e))"
  by (simp add: same_config_def update_command_pool_def update_application_pool_def)

lemma same_config_load_new: "same_config e (load_new_app n d s e)"
proof -
  obtain res e1 where st: "start_app n d s e = (res, e1)" by (cases "start_app n d s e")
  have c1: "same_config e e1" by (rule start_app_config_eq[OF st])
  define e2 where "e2 = (case res of
        Inl err \<Rightarrow> log_failure err ''App failed to initialize. It will not be loaded.'' [d_path d] e1
      | Inr app \<Rightarrow> e1\<lparr>applications := AList.update n app (applications e1)\<rparr>)"
  have c2: "same_config e1 e2"
    by (cases res) (simp_all add: e2_def same_config_def log_failure_def emit_def)
  have "load_new_app n d s e = update_command_pool (update_application_pool n e2)"
    by (simp add: load_new_app_def st e2_def)
  then show ?thesis
    using same_config_trans[OF same_config_trans[OF c1 c2] same_config_update_pools] by simp
qed

lemma same_config_load_app: "same_config e (load_app reuse old e n)"
proof -
  let ?d = "get_app_descriptor (env e) (engine_instance_name e) n"
  let ?s = "get_app_settings (env e) (engine_instance_name e) n"
  obtain b e1 where r: "reuse_app reuse old n ?d ?s e = (b, e1)"
    by (cases "reuse_app reuse old n ?d ?s e")
  have c1: "same_config e e1" by (rule same_config_reuse_eq[OF r])
  have c2: "same_config e (load_new_app n ?d ?s e1)"
    by (rule same_config_trans[OF c1 same_config_load_new])
  show ?thesis
    using c1 c2
    by (simp add: load_app_def Let_def r same_config_emit log_failure_def
        split: outcome.splits bool.splits)
qed

lemma same_config_foldl_load:
  "same_config e (foldl (load_app reuse old) e names)"
proof (induction names arbitrary: e)
  case Nil
  show ?case by (simp add: same_config_refl)
next
  case (Cons n names)
  show ?case
    using same_config_trans[OF same_config_load_app Cons.IH] by simp
qed

section \<open>The command registry and the command pool during a load\<close>

























section \<open>The active application map during a load\<close>

lemma applications_registers:
  "applications (foldl (\<lambda>e' (nm, cb, props). register_command nm cb props e') e cs) = applications e"
  by (induction cs arbitrary: e) (auto simp: register_command_frame)

lemma applications_init_app: "applications (init_app app e) = applications e"
  by (simp add: init_app_def applications_registers)

lemma applications_start_app:
  "start_app n d s e = (res, e') \<Longrightarrow> applications e' = applications e"
  by (auto simp: start_app_def Let_def applications_init_app split: outcome.splits)

lemma applications_reinitialize:
  "applications (snd (reinitialize_app app n d s old e)) = applications e"
  by (simp add: reinitialize_app_def Let_def repopulate_commands_def split: outcome.splits)

lemma applications_reuse_app:
  "applications (snd (reuse_app reuse old n d s e)) =
     (if fst (reuse_app reuse old n d s e)
      then AList.update n
             (the (map_of (the (map_of (application_pool e) (d_path d))) n)) (applications e)
      else applications e)"
  by (simp add: reuse_app_def case_prod_beta emit_def applications_reinitialize
      split: option.splits outcome.splits)

lemma applications_update_pools:
  "applications (update_command_pool (update_application_pool n e)) = applications e"
  by (simp add: update_command_pool_def update_application_pool_def)

lemma applications_load_new_app:
  "applications (load_new_app n d s e) =
     (case fst (start_app n d s e) of
        Inl err \<Rightarrow> applications e
      | Inr app \<Rightarrow> AList.update n app (applications e))"
proof -
  obtain res e1 where st: "start_app n d s e = (res, e1)" by (cases "start_app n d s e")
  show ?thesis
    using applications_start_app[OF st]
    by (cases res)
       (simp_all add: load_new_app_def st applications_update_pools log_failure_def emit_def)
qed

lemma start_app_outcome:
  "(\<exists>app. fst (start_app n d s e) = Inr app) \<longleftrightarrow>
     ac_construct (get_application (tank e) (d_path d)) = Returns \<and>
     setup_frameworks (tank e) (env e) d = Returns \<and>
     ac_init_app (get_application (tank e) (d_path d)) = Returns"
  by (auto simp: start_app_def Let_def split: outcome.splits)

lemma keys_update: "fst ` set (AList.update k v al) = insert k (fst ` set al)"
  by (simp add: dom_update)

lemma applications_load_app:
  "applications (load_app reuse old e n) = applications e \<or>
   (\<exists>app. applications (load_app reuse old e n) = AList.update n app (applications e))"
proof -
  let ?d = "get_app_descriptor (env e) (engine_instance_name e) n"
  let ?s = "get_app_settings (env e) (engine_instance_name e) n"
  let ?r = "reuse_app reuse old n ?d ?s e"
  have new: "applications (load_new_app n ?d ?s (snd ?r)) = applications (snd ?r) \<or>
     (\<exists>app. applications (load_new_app n ?d ?s (snd ?r)) = AList.update n app (applications (snd ?r)))"
    by (cases "fst (start_app n ?d ?s (snd ?r))") (auto simp: applications_load_new_app)
  show ?thesis
  proof (cases "fst ?r")
    case True
    then show ?thesis
      using applications_reuse_app[of reuse old n ?d ?s e]
      by (auto simp: load_app_def Let_def case_prod_beta log_failure_def emit_def
          split: outcome.splits)
  next
    case False
    then show ?thesis
      using applications_reuse_app[of reuse old n ?d ?s e] new
      by (auto simp: load_app_def Let_def case_prod_beta log_failure_def emit_def
          split: outcome.splits)
  qed
qed

lemma load_app_keys_cases:
  "fst ` set (applications (load_app reuse old e n)) = fst ` set (applications e) \<or>
   fst ` set (applications (load_app reuse old e n)) = insert n (fst ` set (applications e))"
proof -
  from applications_load_app[of reuse old e n] show ?thesis
  proof
    assume "applications (load_app reuse old e n) = applications e"
    then show ?thesis by simp
  next
    assume "\<exists>app. applications (load_app reuse old e n) = AList.update n app (applications e)"
    then obtain app where "applications (load_app reuse old e n) = AList.update n app (applications e)" ..
    then show ?thesis by (simp add: keys_update)
  qed
qed

lemma load_app_keys_subset:
  "fst ` set (applications e) \<subseteq> fst ` set (applications (load_app reuse old e n))"
  "fst ` set (applications (load_app reuse old e n)) \<subseteq> insert n (fst ` set (applications e))"
  using load_app_keys_cases[of reuse old e n] by blast+

lemma foldl_load_keys_lower:
  "fst ` set (applications e) \<subseteq> fst ` set (applications (foldl (load_app reuse old) e names))"
proof (induction names arbitrary: e)
  case Nil
  show ?case by simp
next
  case (Cons n names)
  have "fst ` set (applications e) \<subseteq> fst ` set (applications (load_app reuse old e n))"
    by (rule load_app_keys_subset)
  also have "\<dots> \<subseteq> fst ` set (applications (foldl (load_app reuse old) (load_app reuse old e n) names))"
    by (rule Cons.IH)
  finally show ?case by simp
qed

lemma foldl_load_keys_upper:
  "fst ` set (applications (foldl (load_app reuse old) e names)) \<subseteq> set names \<union> fst ` set (applications e)"
proof (induction names arbitrary: e)
  case Nil
  show ?case by simp
next
  case (Cons n names)
  have "fst ` set (applications (foldl (load_app reuse old) (load_app reuse old e n) names))
          \<subseteq> set names \<union> fst ` set (applications (load_app reuse old e n))"
    by (rule Cons.IH)
  also have "\<dots> \<subseteq> set names \<union> insert n (fst ` set (applications e))"
    using load_app_keys_subset(2)[of reuse old e n] by blast
  finally show ?case by auto
qed

lemma same_config_declared:
  assumes "same_config e e'"
  shows "declared_descriptor e' n = declared_descriptor e n"
    and "declared_settings e' n = declared_settings e n"
    and "declared_apps e' = declared_apps e"
    and "app_validates e' n = app_validates e n"
    and "app_starts e' n = app_starts e n"
proof -
  from assms have eqs: "tank e' = tank e" "env e' = env e"
    "engine_instance_name e' = engine_instance_name e" "name e' = name e"
    "current_context e' = current_context e"
    by (simp_all add: same_config_def)
  show "declared_descriptor e' n = declared_descriptor e n"
    and "declared_settings e' n = declared_settings e n"
    and "declared_apps e' = declared_apps e"
    and "app_validates e' n = app_validates e n"
    and "app_starts e' n = app_starts e n"
    unfolding declared_descriptor_def declared_settings_def declared_apps_def app_validates_def
      app_starts_def validate_app_def eqs
    by (rule refl)+
qed

lemma start_app_starts:
  "(\<exists>app. fst (start_app n (declared_descriptor e n) s e') = Inr app) \<longleftrightarrow> app_starts e n"
  if "same_config e e'"
  using that by (simp add: start_app_outcome app_starts_def same_config_def declared_descriptor_def)

lemma load_app_unfold:
  "load_app reuse old e n =
     (if \<not> d_exists_local (declared_descriptor e n)
      then log_error ''Cannot start app! It does not exist on disk.'' [d_path (declared_descriptor e n)] e
      else case validate_app n (declared_descriptor e n) e of
             Raises err \<Rightarrow>
               log_failure err ''App configuration error. The app will not be loaded.'' [n] e
           | Returns \<Rightarrow>
               if fst (reuse_app reuse old n (declared_descriptor e n) (declared_settings e n) e)
               then snd (reuse_app reuse old n (declared_descriptor e n) (declared_settings e n) e)
               else load_new_app n (declared_descriptor e n) (declared_settings e n)
                      (snd (reuse_app reuse old n (declared_descriptor e n) (declared_settings e n) e)))"
  by (simp add: load_app_def Let_def declared_descriptor_def declared_settings_def case_prod_beta
      split: outcome.splits bool.splits)

lemma load_app_loads:
  assumes "app_validates e n" and "app_starts e n"
  shows "n \<in> fst ` set (applications (load_app reuse old e n))"
proof -
  let ?r = "reuse_app reuse old n (declared_descriptor e n) (declared_settings e n) e"
  have v: "d_exists_local (declared_descriptor e n)" "validate_app n (declared_descriptor e n) e = Returns"
    using assms(1) by (simp_all add: app_validates_def)
  show ?thesis
  proof (cases "fst ?r")
    case True
    then show ?thesis
      by (simp add: load_app_unfold v applications_reuse_app keys_update)
  next
    case False
    have c: "same_config e (snd ?r)"
      by (rule same_config_reuse_eq[of reuse old n _ _ e "fst ?r"]) simp
    obtain app where "fst (start_app n (declared_descriptor e n) (declared_settings e n) (snd ?r)) = Inr app"
      using start_app_starts[OF c] assms(2) by blast
    then show ?thesis
      using False by (simp add: load_app_unfold v applications_load_new_app keys_update)
  qed
qed

lemma load_app_skips:
  assumes "\<not> app_starts e n"
    and "\<not> fst (reuse_app reuse old n (declared_descriptor e n) (declared_settings e n) e)"
  shows "applications (load_app reuse old e n) = applications e"
proof -
  let ?r = "reuse_app reuse old n (declared_descriptor e n) (declared_settings e n) e"
  have c: "same_config e (snd ?r)"
    by (rule same_config_reuse_eq[of reuse old n _ _ e "fst ?r"]) simp
  have "\<not> (\<exists>app. fst (start_app n (declared_descriptor e n) (declared_settings e n) (snd ?r)) = Inr app)"
    using start_app_starts[OF c] assms(1) by blast
  then obtain err where
    "fst (start_app n (declared_descriptor e n) (declared_settings e n) (snd ?r)) = Inl err"
    by (cases "fst (start_app n (declared_descriptor e n) (declared_settings e n) (snd ?r))") auto
  then show ?thesis
    using assms(2)
    by (simp add: load_app_unfold applications_load_new_app applications_reuse_app
        log_failure_def emit_def split: outcome.splits)
qed

lemma loop_state_config: "same_config e (loop_state reuse old e pre)"
proof -
  have a: "same_config e (e\<lparr>applications := [], commands := []\<rparr>)"
    by (simp add: same_config_def)
  show ?thesis
    unfolding loop_state_def
    by (rule same_config_trans[OF same_config_trans[OF a same_config_register_reload]
          same_config_foldl_load])
qed

lemma applications_register_reload:
  "applications (register_reload_command e) = applications e"
  by (simp add: register_reload_command_def register_command_frame emit_def split: option.splits)

lemma loop_state_keys: "fst ` set (applications (loop_state reuse old e pre)) \<subseteq> set pre"
  using foldl_load_keys_upper[of reuse old
      "register_reload_command (e\<lparr>applications := [], commands := []\<rparr>)" pre]
  by (simp add: loop_state_def applications_register_reload)

lemma load_apps_split:
  "declared_apps e = pre @ n # post \<Longrightarrow>
   load_apps reuse old e =
     foldl (load_app reuse old) (load_app reuse old (loop_state reuse old e pre) n) post"
  by (simp add: load_apps_def loop_state_def declared_apps_def)

lemma foldl_load_loads:
  assumes "m \<in> set names" and "same_config e0 e" and "app_validates e0 m" and "app_starts e0 m"
  shows "m \<in> fst ` set (applications (foldl (load_app reuse old) e names))"
  using assms
proof (induction names arbitrary: e)
  case Nil
  then show ?case by simp
next
  case (Cons x names)
  have c: "same_config e0 (load_app reuse old e x)"
    by (rule same_config_trans[OF Cons.prems(2) same_config_load_app])
  show ?case
  proof (cases "m = x")
    case True
    have "m \<in> fst ` set (applications (load_app reuse old e m))"
      using Cons.prems same_config_declared(4,5)[OF Cons.prems(2), of m]
      by (intro load_app_loads) simp_all
    then show ?thesis
      using foldl_load_keys_lower[of "load_app reuse old e m" reuse old names] True by auto
  next
    case False
    with Cons.prems have "m \<in> set names" by simp
    from Cons.IH[OF this c Cons.prems(3,4)] show ?thesis by simp
  qed
qed

section \<open>The steps of a context change\<close>






section \<open>Sample configurations, evaluated\<close>

lemma failing_only_loaded:
  "applications (load_apps False None failing_only_engine) = []"
  "commands (load_apps False None failing_only_engine) = [(''Foo'', 0)]"
  "p_app (c_properties (cmd_heap (load_apps False None failing_only_engine) 0)) = Some 0"
  "instance_name (app_heap (load_apps False None failing_only_engine) 0) = ''A''"
  by (simp_all add: failing_only_engine_def failing_only_env_def failing_first_toolkit_def
      load_defs sample_defs Let_def)

section \<open>Taking a pooled app over in place\<close>










text \<open>
  The engine \<open>collide_engine\<close> is the state that an engine start in the environment "one"
  leaves behind: the registries, the pools and the two objects are those of the load.
\<close>

lemma collide_engine_reached:
  "(let e' = load_apps False None collide_start
    in (applications e', application_pool e', commands e', command_pool e',
        app_heap e' 0, cmd_heap e' 0, commands_that_need_prefixing e')) =
   (applications collide_engine, application_pool collide_engine, commands collide_engine,
    command_pool collide_engine, app_heap collide_engine 0, cmd_heap collide_engine 0,
    commands_that_need_prefixing collide_engine)"
  by (simp add: collide_engine_def collide_start_def collide_env_one_def collide_toolkit_def
      load_defs sample_defs Let_def)

section \<open>The persistent application pool\<close>

text \<open>
  Claim C8 says that every key of the application pool identifies the app stored under
  it. The code does otherwise. The update of the pool at the end of the loop body walks
  over all apps loaded so far and stores each under its own descriptor path but under
  the instance name of the app the loop is at (the loop variable \<open>app_instance_name\<close>,
  not the instance name of the app being stored). With two declared apps A and B that
  allow context changes, installed at two paths, the pool after the first load holds
  the object of A a second time, under the path of A and the instance name B.
\<close>

theorem application_pool_key_of_other_app:
  "application_pool two_apps_engine =
     [(''/apps/a'', [(''A'', 0), (''B'', 0)]), (''/apps/b'', [(''B'', 1)])] \<and>
   instance_name (app_heap two_apps_engine 0) = ''A''"
  by (simp add: two_apps_engine_def two_apps_env_def two_apps_toolkit_def load_defs sample_defs Let_def)



section \<open>An app taken over in place keeps its object and gets its commands back\<close>




section \<open>Exceptions during a context change\<close>




section \<open>An app that fails to start\<close>

text \<open>
  Claim C7, as the code has it. Take a declared app whose load raises (its constructor,
  its framework setup or its \<open>init_app\<close>), and which is not taken over in place from
  the pool when the loop reaches it. After the pass it is absent from the active
  application map, and every declared app that validates and whose own load returns is
  in the map. Nothing is said about the command registry: the commands that \<open>init_app\<close>
  registered before it raised stay there, as the counterexample below shows.
\<close>

theorem failing_app_is_skipped:
  assumes "declared_apps e = pre @ n # post"
    and "distinct (declared_apps e)"
    and "\<not> app_starts e n"
    and "\<not> fst (reuse_app reuse_existing_apps old_context n (declared_descriptor e n)
               (declared_settings e n) (loop_state reuse_existing_apps old_context e pre))"
  shows "n \<notin> fst ` set (applications (load_apps reuse_existing_apps old_context e)) \<and>
         (\<forall>m \<in> set (declared_apps e). app_validates e m \<and> app_starts e m \<longrightarrow>
            m \<in> fst ` set (applications (load_apps reuse_existing_apps old_context e)))"
proof
  let ?e1 = "loop_state reuse_existing_apps old_context e pre"
  let ?e2 = "load_app reuse_existing_apps old_context ?e1 n"
  have c1: "same_config e ?e1" by (rule loop_state_config)
  have npre: "n \<notin> set pre" and npost: "n \<notin> set post"
    using assms(1,2) by auto
  have k1: "n \<notin> fst ` set (applications ?e1)"
    using loop_state_keys[of reuse_existing_apps old_context e pre] npre by blast
  have "applications ?e2 = applications ?e1"
    using assms(3,4) same_config_declared(1,2,5)[OF c1, of n]
    by (intro load_app_skips) simp_all
  with k1 have k2: "n \<notin> fst ` set (applications ?e2)" by simp
  have "fst ` set (applications (foldl (load_app reuse_existing_apps old_context) ?e2 post))
          \<subseteq> set post \<union> fst ` set (applications ?e2)"
    by (rule foldl_load_keys_upper)
  with k2 npost show "n \<notin> fst ` set (applications (load_apps reuse_existing_apps old_context e))"
    unfolding load_apps_split[OF assms(1)] by blast
next
  have c0: "same_config e (register_reload_command (e\<lparr>applications := [], commands := []\<rparr>))"
    using loop_state_config[of e reuse_existing_apps old_context "[]"] by (simp add: loop_state_def)
  show "\<forall>m \<in> set (declared_apps e). app_validates e m \<and> app_starts e m \<longrightarrow>
            m \<in> fst ` set (applications (load_apps reuse_existing_apps old_context e))"
    using foldl_load_loads[OF _ c0]
    by (auto simp: load_apps_def declared_apps_def)
qed

theorem failing_app_is_skipped_witness:
  "declared_apps failing_first_engine = [] @ ''A'' # [''B''] \<and>
   distinct (declared_apps failing_first_engine) \<and>
   \<not> app_starts failing_first_engine ''A'' \<and>
   \<not> fst (reuse_app False None ''A'' (declared_descriptor failing_first_engine ''A'')
           (declared_settings failing_first_engine ''A'')
           (loop_state False None failing_first_engine [])) \<and>
   ''A'' \<notin> fst ` set (applications (load_apps False None failing_first_engine)) \<and>
   ''B'' \<in> fst ` set (applications (load_apps False None failing_first_engine))"
proof -
  have h1: "declared_apps failing_first_engine = [] @ ''A'' # [''B'']"
    by (simp add: declared_apps_def failing_first_engine_def new_engine_def
        failing_first_env_def sample_environment_def)
  have h2: "distinct (declared_apps failing_first_engine)"
    by (simp add: h1)
  have h3: "\<not> app_starts failing_first_engine ''A''"
    by (simp add: app_starts_def declared_descriptor_def failing_first_engine_def new_engine_def
        failing_first_env_def failing_first_toolkit_def sample_defs)
  have h4: "\<not> fst (reuse_app False None ''A'' (declared_descriptor failing_first_engine ''A'')
           (declared_settings failing_first_engine ''A'')
           (loop_state False None failing_first_engine []))"
    by (simp add: reuse_app_def)
  have b: "app_validates failing_first_engine ''B'' \<and> app_starts failing_first_engine ''B''"
    by (simp add: app_validates_def app_starts_def validate_app_def declared_descriptor_def
        failing_first_engine_def new_engine_def failing_first_env_def failing_first_toolkit_def
        sample_defs)
  from failing_app_is_skipped[OF h1 h2 h3 h4] b h1 h2 h3 h4 show ?thesis
    by simp
qed

text \<open>
  Claim C7 as stated also says that the failing app contributes no entry to the command
  registry. With one declared app whose \<open>init_app\<close> registers "Foo" and then raises,
  the app is not in the application map, and "Foo", owned by its object, is in the
  registry.
\<close>

theorem failing_init_app_counterexample:
  "ac_init_app (get_application (tank failing_only_engine) ''/apps/a'') = Raises PyException \<and>
   applications (load_apps False None failing_only_engine) = [] \<and>
   commands (load_apps False None failing_only_engine) = [(''Foo'', 0)] \<and>
   p_app (c_properties (cmd_heap (load_apps False None failing_only_engine) 0)) = Some 0 \<and>
   instance_name (app_heap (load_apps False None failing_only_engine) 0) = ''A''"
proof -
  have "ac_init_app (get_application (tank failing_only_engine) ''/apps/a'') = Raises PyException"
    by (simp add: failing_only_engine_def new_engine_def failing_first_toolkit_def sample_defs)
  then show ?thesis
    by (simp only: failing_only_loaded simp_thms)
qed

end
